theory Spec2Isabelle
  imports Main "HOL-Library.AList"
begin

section \<open>Values exchanged with the Fitbit API\<close>

text \<open>
  The credentials are a Python dict read with \<open>json.load\<close>, and every response body is
  decoded with \<open>response.json()\<close>, so the values of the program are JSON values. The
  program never computes with numbers: a float is kept as the text of its literal.
  A dict is an association list in insertion order; \<open>map_of\<close> reads a key,
  \<open>AList.update\<close> assigns one (in place when the key exists, appended otherwise, as
  Python does).
\<close>

datatype json =
    JNull
  | JBool bool
  | JInt int
  | JFloat string
  | JStr string
  | JArr "json list"
  | JObj "(string \<times> json) list"

type_synonym pydict = "(string \<times> json) list"

record response =
  status_code :: int
  json_body :: "json option"

text \<open>
  A request as the client sends it: the method, the URL, the headers and, for a POST,
  the form data.
\<close>

datatype request =
    GET string "(string \<times> string) list"
  | POST string "(string \<times> string) list" pydict

text \<open>
  What \<open>client.get\<close> and \<open>client.post\<close> give back: a response, or an exception of the
  transport (a timeout after the client's 10 seconds, a refused connection).
\<close>

datatype reply = Response response | Failure string

datatype error =
    CredentialsError "json option"
  | HTTPStatusError response
  | KeyError string
  | TypeError
  | JSONDecodeError
  | TransportError string

text \<open>
  \<open>datetime\<close>: the fields of the standard library's class.
\<close>

record datetime =
  year :: nat
  month :: nat
  day :: nat
  hour :: nat
  minute :: nat
  second :: nat
  microsecond :: nat

text \<open>
  The world outside the program. \<open>send env tr req\<close> is the reply to request \<open>req\<close> when
  the requests \<open>tr\<close> were sent before it in this call, so a server may answer the same
  request differently the second time. \<open>basic_value env client_id client_secret\<close> is
  the text \<open>b64encode(f"{client_id}:{client_secret}".encode()).decode()\<close> of the standard
  library, which no property below reads. \<open>strftime_Ymd env d\<close> is the text
  \<open>d.strftime("%Y-%m-%d")\<close>: the standard library hands the format to the platform's C
  library, and what that writes for a year below 1000 differs between platforms, so
  the rendering is taken as it comes.
\<close>

record env =
  send :: "request list \<Rightarrow> request \<Rightarrow> reply"
  basic_value :: "json \<Rightarrow> json \<Rightarrow> string"
  strftime_Ymd :: "datetime \<Rightarrow> string"

section \<open>Library operations the module calls\<close>

text \<open>\<open>response.raise_for_status()\<close> of httpx: every status outside 200..299 raises.\<close>

definition is_success :: "response \<Rightarrow> bool" where
  "is_success r = (200 \<le> status_code r \<and> status_code r \<le> 299)"

definition raise_for_status :: "response \<Rightarrow> error + response" where
  "raise_for_status r = (if is_success r then Inr r else Inl (HTTPStatusError r))"

text \<open>\<open>response.json()\<close>: a body that is not JSON raises the decoder's error.\<close>

definition response_json :: "response \<Rightarrow> error + json" where
  "response_json r = (case json_body r of None \<Rightarrow> Inl JSONDecodeError | Some j \<Rightarrow> Inr j)"

text \<open>
  \<open>d[k]\<close> with a string key: a dict without the key raises KeyError, and a value that
  is not a dict (a list, a string, a number, \<open>None\<close>) raises TypeError.
\<close>

fun getitem :: "json \<Rightarrow> string \<Rightarrow> error + json" where
  "getitem (JObj d) k = (case map_of d k of None \<Rightarrow> Inl (KeyError k) | Some v \<Rightarrow> Inr v)"
| "getitem _ k = Inl TypeError"

text \<open>\<open>creds.get(k, default)\<close>.\<close>

definition dict_get :: "pydict \<Rightarrow> string \<Rightarrow> json \<Rightarrow> json" where
  "dict_get d k dflt = (case map_of d k of None \<Rightarrow> dflt | Some v \<Rightarrow> v)"

section \<open>fitbit.py\<close>

text \<open>
  Every function takes the requests sent so far and returns them extended, so that
  the number and the order of the network calls can be read off the result. The
  credentials dict is mutated in place by the source; here the functions that touch it
  return it.
\<close>

definition do_resource_get ::
  "env \<Rightarrow> request list \<Rightarrow> json \<Rightarrow> string \<Rightarrow> (error + json) \<times> request list" where
  "do_resource_get e tr access_token url =
     (case access_token of
        JStr tok \<Rightarrow>
          (let req = GET url [(''Authorization'', ''Bearer '' @ tok)] in
           case send e tr req of
             Failure m \<Rightarrow> (Inl (TransportError m), tr @ [req])
           | Response r \<Rightarrow>
               (case raise_for_status r of
                  Inl ex \<Rightarrow> (Inl ex, tr @ [req])
                | Inr _ \<Rightarrow> (response_json r, tr @ [req])))
      | _ \<Rightarrow> (Inl TypeError, tr))"

definition do_auth_post ::
  "env \<Rightarrow> request list \<Rightarrow> json \<Rightarrow> json \<Rightarrow> pydict \<Rightarrow> (error + json) \<times> request list" where
  "do_auth_post e tr client_id client_secret post_data =
     (let url = ''https://api.fitbit.com/oauth2/token'';
          auth_value = basic_value e client_id client_secret;
          req = POST url [(''Authorization'', ''Basic '' @ auth_value)] post_data in
      case send e tr req of
        Failure m \<Rightarrow> (Inl (TransportError m), tr @ [req])
      | Response r \<Rightarrow>
          (case raise_for_status r of
             Inl ex \<Rightarrow> (Inl ex, tr @ [req])
           | Inr _ \<Rightarrow> (response_json r, tr @ [req])))"

definition refresh_access_token ::
  "env \<Rightarrow> request list \<Rightarrow> pydict \<Rightarrow> (error + json) \<times> pydict \<times> request list" where
  "refresh_access_token e tr creds =
     (case getitem (JObj creds) ''refresh_token'' of
        Inl ex \<Rightarrow> (Inl ex, creds, tr)
      | Inr rt \<Rightarrow>
     (let post_data = [(''refresh_token'', rt), (''grant_type'', JStr ''refresh_token'')] in
      case getitem (JObj creds) ''client_id'' of
        Inl ex \<Rightarrow> (Inl ex, creds, tr)
      | Inr cid \<Rightarrow>
     (case getitem (JObj creds) ''client_secret'' of
        Inl ex \<Rightarrow> (Inl ex, creds, tr)
      | Inr cs \<Rightarrow>
     (case do_auth_post e tr cid cs post_data of
        (Inl ex, tr') \<Rightarrow> (Inl ex, creds, tr')
      | (Inr data, tr') \<Rightarrow>
     (case getitem data ''access_token'' of
        Inl ex \<Rightarrow> (Inl ex, creds, tr')
      | Inr a \<Rightarrow>
     (let creds1 = AList.update ''access_token'' a creds in
      case getitem data ''refresh_token'' of
        Inl ex \<Rightarrow> (Inl ex, creds1, tr')
      | Inr r \<Rightarrow>
     (let creds2 = AList.update ''refresh_token'' r creds1 in
      (getitem data ''access_token'', creds2, tr'))))))))"

text \<open>
  The handler of the inner \<open>try\<close>: an HTTPStatusError becomes
  \<open>CredentialsError(ex.response.json())\<close>, where decoding the body may itself raise;
  any other exception passes through.
\<close>

definition credentials_error_from :: "error \<Rightarrow> error" where
  "credentials_error_from ex =
     (case ex of
        HTTPStatusError r \<Rightarrow>
          (case response_json r of Inl ex' \<Rightarrow> ex' | Inr j \<Rightarrow> CredentialsError (Some j))
      | _ \<Rightarrow> ex)"

text \<open>
  \<open>not creds\<close> holds of \<open>None\<close> and of the empty dict. The result is the returned JSON
  or the exception raised, the credentials as the call leaves them, and the requests
  sent, in order.
\<close>

definition api_request ::
  "env \<Rightarrow> pydict option \<Rightarrow> string \<Rightarrow> (error + json) \<times> pydict option \<times> request list" where
  "api_request e creds url_path =
     (case creds of
        None \<Rightarrow> (Inl (CredentialsError None), None, [])
      | Some [] \<Rightarrow> (Inl (CredentialsError None), Some [], [])
      | Some c \<Rightarrow>
     (let access_token = dict_get c ''access_token'' (JStr '''');
          url = ''https://api.fitbit.com/1/user/-/'' @ url_path in
      case do_resource_get e [] access_token url of
        (Inr j, tr) \<Rightarrow> (Inr j, Some c, tr)
      | (Inl (HTTPStatusError r), tr) \<Rightarrow>
          (if status_code r = 401 then
             (case refresh_access_token e tr c of
                (Inl ex, c', tr') \<Rightarrow> (Inl (credentials_error_from ex), Some c', tr')
              | (Inr access_token', c', tr') \<Rightarrow>
                  (case do_resource_get e tr' access_token' url of
                     (Inr j, tr'') \<Rightarrow> (Inr j, Some c', tr'')
                   | (Inl ex, tr'') \<Rightarrow> (Inl (credentials_error_from ex), Some c', tr'')))
           else (Inl (HTTPStatusError r), Some c, tr))
      | (Inl ex, tr) \<Rightarrow> (Inl ex, Some c, tr)))"

text \<open>
  \<open>end = end or date\<close>: a datetime is never false, so only \<open>None\<close> is replaced.
\<close>

definition spo2_url_path :: "env \<Rightarrow> datetime \<Rightarrow> datetime option \<Rightarrow> string" where
  "spo2_url_path e date end_opt =
     (let end' = (case end_opt of None \<Rightarrow> date | Some en \<Rightarrow> en);
          date_str = strftime_Ymd e date;
          end_str = strftime_Ymd e end' in
      ''spo2/date/'' @ date_str @ ''/'' @ end_str @ ''.json'')"

definition get_spo2 ::
  "env \<Rightarrow> pydict option \<Rightarrow> datetime \<Rightarrow> datetime option
     \<Rightarrow> (error + json) \<times> pydict option \<times> request list" where
  "get_spo2 e creds date end_opt = api_request e creds (spo2_url_path e date end_opt)"

section \<open>The requests and replies the properties speak of\<close>

text \<open>
  The resource request of \<open>_api_request\<close> and \<open>_do_resource_get\<close> for a path and a
  token, and the refresh request of \<open>_refresh_access_token\<close> and \<open>_do_auth_post\<close> for
  the three values read from the credentials. Lemmas \<open>resource_get_bearer\<close> and
  \<open>refresh_ok\<close> below show that these are the requests the functions send.
\<close>

definition resource_url :: "string \<Rightarrow> string" where
  "resource_url url_path = ''https://api.fitbit.com/1/user/-/'' @ url_path"

definition bearer_get :: "string \<Rightarrow> string \<Rightarrow> request" where
  "bearer_get url_path tok =
     GET (''https://api.fitbit.com/1/user/-/'' @ url_path) [(''Authorization'', ''Bearer '' @ tok)]"

definition refresh_post :: "env \<Rightarrow> json \<Rightarrow> json \<Rightarrow> json \<Rightarrow> request" where
  "refresh_post e cid cs rt =
     POST ''https://api.fitbit.com/oauth2/token''
       [(''Authorization'', ''Basic '' @ basic_value e cid cs)]
       [(''refresh_token'', rt), (''grant_type'', JStr ''refresh_token'')]"

text \<open>
  What both \<open>_do_resource_get\<close> and \<open>_do_auth_post\<close> make of a reply:
  \<open>raise_for_status\<close>, then \<open>json()\<close>.
\<close>

definition get_outcome :: "reply \<Rightarrow> error + json" where
  "get_outcome rp =
     (case rp of
        Failure m \<Rightarrow> Inl (TransportError m)
      | Response r \<Rightarrow> if is_success r then response_json r else Inl (HTTPStatusError r))"

text \<open>\<open>creds[k]\<close> as the caller reads it after the call; \<open>None\<close> has no field.\<close>

definition creds_field :: "pydict option \<Rightarrow> string \<Rightarrow> json option" where
  "creds_field creds k = (case creds of None \<Rightarrow> None | Some c \<Rightarrow> map_of c k)"

definition is_GET :: "request \<Rightarrow> bool" where
  "is_GET req = (case req of GET u h \<Rightarrow> True | POST u h d \<Rightarrow> False)"

definition is_POST :: "request \<Rightarrow> bool" where
  "is_POST req = (case req of GET u h \<Rightarrow> False | POST u h d \<Rightarrow> True)"

definition raises_CredentialsError :: "error + json \<Rightarrow> bool" where
  "raises_CredentialsError res =
     (case res of Inl (CredentialsError p) \<Rightarrow> True | _ \<Rightarrow> False)"

section \<open>Concrete runs\<close>

text \<open>
  A scripted server: the n-th request of a call gets the n-th reply of the script, and
  the connection fails once the script is used up.
\<close>

definition scripted :: "reply list \<Rightarrow> request list \<Rightarrow> request \<Rightarrow> reply" where
  "scripted rs tr req = (if length tr < length rs then rs ! length tr else Failure ''no reply'')"

definition creds_expired :: pydict where
  "creds_expired =
     [(''client_id'', JStr ''A''), (''client_secret'', JStr ''B''),
      (''access_token'', JStr ''expired''), (''refresh_token'', JStr ''R1'')]"

definition creds_no_refresh :: pydict where
  "creds_no_refresh =
     [(''client_id'', JStr ''A''), (''client_secret'', JStr ''B''),
      (''access_token'', JStr ''expired'')]"

definition creds_no_token :: pydict where
  "creds_no_token = [(''client_id'', JStr ''A''), (''client_secret'', JStr ''B'')]"

definition new_tokens :: json where
  "new_tokens = JObj [(''access_token'', JStr ''new''), (''refresh_token'', JStr ''R2'')]"

definition spo2_records :: json where
  "spo2_records =
     JArr [JObj [(''dateTime'', JStr ''2024-01-01''),
                 (''value'', JObj [(''avg'', JFloat ''94.2''), (''min'', JFloat ''89.0''),
                                   (''max'', JFloat ''98.1'')])]]"

definition error_body :: "string \<Rightarrow> json" where
  "error_body t = JObj [(''errors'', JArr [JObj [(''errorType'', JStr t)]]),
                        (''success'', JBool False)]"

text \<open>
  The rendering of dates in the concrete runs, as CPython gives it on Linux: \<open>%Y\<close> is
  the year in plain decimal, \<open>%m\<close> and \<open>%d\<close> are two digits each. From the year 1000 on
  the text is YYYY-MM-DD.
\<close>

definition digit :: "nat \<Rightarrow> char" where
  "digit n = ''0123456789'' ! (n mod 10)"

fun decimal :: "nat \<Rightarrow> string" where
  "decimal n = (if n < 10 then [digit n] else decimal (n div 10) @ [digit n])"

definition strftime_Ymd_linux :: "datetime \<Rightarrow> string" where
  "strftime_Ymd_linux d =
     decimal (year d)
     @ ''-'' @ [digit (month d div 10), digit (month d)]
     @ ''-'' @ [digit (day d div 10), digit (day d)]"

definition day1 :: datetime where
  "day1 = \<lparr>year = 2024, month = 1, day = 1, hour = 0, minute = 0, second = 0,
            microsecond = 0\<rparr>"

definition day2 :: datetime where
  "day2 = \<lparr>year = 2024, month = 1, day = 2, hour = 0, minute = 0, second = 0,
            microsecond = 0\<rparr>"

text \<open>The end-to-end scenario: 401, a refresh that succeeds, a retry that succeeds.\<close>

definition env_refreshed :: env where
  "env_refreshed =
     \<lparr>send = scripted
        [Response \<lparr>status_code = 401, json_body = Some (error_body ''expired_token'')\<rparr>,
         Response \<lparr>status_code = 200, json_body = Some new_tokens\<rparr>,
         Response \<lparr>status_code = 200, json_body = Some spo2_records\<rparr>],
      basic_value = (\<lambda>cid cs. ''QTpC''),
      strftime_Ymd = strftime_Ymd_linux\<rparr>"

text \<open>401, then the token endpoint answers 400 with a JSON error.\<close>

definition env_refresh_rejected :: env where
  "env_refresh_rejected =
     \<lparr>send = scripted
        [Response \<lparr>status_code = 401, json_body = Some (error_body ''expired_token'')\<rparr>,
         Response \<lparr>status_code = 400, json_body = Some (error_body ''invalid_grant'')\<rparr>],
      basic_value = (\<lambda>cid cs. ''QTpC''),
      strftime_Ymd = strftime_Ymd_linux\<rparr>"

text \<open>401, then a gateway in front of the token endpoint answers 502 with a page that is not JSON.\<close>

definition env_bad_gateway :: env where
  "env_bad_gateway =
     \<lparr>send = scripted
        [Response \<lparr>status_code = 401, json_body = Some (error_body ''expired_token'')\<rparr>,
         Response \<lparr>status_code = 502, json_body = None\<rparr>],
      basic_value = (\<lambda>cid cs. ''QTpC''),
      strftime_Ymd = strftime_Ymd_linux\<rparr>"

text \<open>401, a refresh that succeeds, then a gateway answers the retry 502 with a page that is not JSON.\<close>

definition env_retry_bad_gateway :: env where
  "env_retry_bad_gateway =
     \<lparr>send = scripted
        [Response \<lparr>status_code = 401, json_body = Some (error_body ''expired_token'')\<rparr>,
         Response \<lparr>status_code = 200, json_body = Some new_tokens\<rparr>,
         Response \<lparr>status_code = 502, json_body = None\<rparr>],
      basic_value = (\<lambda>cid cs. ''QTpC''),
      strftime_Ymd = strftime_Ymd_linux\<rparr>"

text \<open>The first GET answers 500.\<close>

definition env_server_error :: env where
  "env_server_error =
     \<lparr>send = scripted
        [Response \<lparr>status_code = 500, json_body = Some (error_body ''system'')\<rparr>],
      basic_value = (\<lambda>cid cs. ''QTpC''),
      strftime_Ymd = strftime_Ymd_linux\<rparr>"

text \<open>The first GET succeeds.\<close>

definition env_ok :: env where
  "env_ok =
     \<lparr>send = scripted [Response \<lparr>status_code = 200, json_body = Some spo2_records\<rparr>],
      basic_value = (\<lambda>cid cs. ''QTpC''),
      strftime_Ymd = strftime_Ymd_linux\<rparr>"

section \<open>How the functions unfold\<close>

lemma resource_get_bearer:
  "do_resource_get e tr (JStr tok) (resource_url path) =
     (get_outcome (send e tr (bearer_get path tok)), tr @ [bearer_get path tok])"
  by (simp add: do_resource_get_def raise_for_status_def bearer_get_def get_outcome_def resource_url_def
      split: reply.splits)

lemma resource_get_not_str:
  "(\<forall>tok. a \<noteq> JStr tok) \<Longrightarrow> do_resource_get e tr a url = (Inl TypeError, tr)"
  by (cases a) (simp_all add: do_resource_get_def)

lemma refresh_ok:
  assumes "map_of c ''refresh_token'' = Some rt"
    and "map_of c ''client_id'' = Some cid"
    and "map_of c ''client_secret'' = Some cs"
  shows "refresh_access_token e tr c =
     (case get_outcome (send e tr (refresh_post e cid cs rt)) of
        Inl ex \<Rightarrow> (Inl ex, c, tr @ [refresh_post e cid cs rt])
      | Inr data \<Rightarrow>
            (case getitem data ''access_token'' of
               Inl ex \<Rightarrow> (Inl ex, c, tr @ [refresh_post e cid cs rt])
             | Inr a \<Rightarrow>
                (case getitem data ''refresh_token'' of
                   Inl ex \<Rightarrow> (Inl ex, AList.update ''access_token'' a c, tr @ [refresh_post e cid cs rt])
                 | Inr r' \<Rightarrow> (Inr a, AList.update ''refresh_token'' r' (AList.update ''access_token'' a c),
                      tr @ [refresh_post e cid cs rt]))))"
  using assms
  by (simp add: refresh_access_token_def do_auth_post_def refresh_post_def raise_for_status_def
      get_outcome_def response_json_def Let_def split: option.splits sum.splits reply.splits)

lemma refresh_missing_key:
  assumes "map_of c ''refresh_token'' = None \<or> map_of c ''client_id'' = None
           \<or> map_of c ''client_secret'' = None"
  shows "refresh_access_token e tr c =
     (Inl (KeyError (if map_of c ''refresh_token'' = None then ''refresh_token''
                     else if map_of c ''client_id'' = None then ''client_id''
                     else ''client_secret'')), c, tr)"
  using assms
  by (auto simp: refresh_access_token_def Let_def split: option.splits sum.splits)

lemma api_request_nonempty:
  "c \<noteq> [] \<Longrightarrow> api_request e (Some c) url_path =
     (case do_resource_get e [] (dict_get c ''access_token'' (JStr [])) (resource_url url_path) of
        (Inr j, tr) \<Rightarrow> (Inr j, Some c, tr)
      | (Inl (HTTPStatusError r), tr) \<Rightarrow>
          (if status_code r = 401 then
             (case refresh_access_token e tr c of
                (Inl ex, c', tr') \<Rightarrow> (Inl (credentials_error_from ex), Some c', tr')
              | (Inr access_token', c', tr') \<Rightarrow>
                  (case do_resource_get e tr' access_token' (resource_url url_path) of
                     (Inr j, tr'') \<Rightarrow> (Inr j, Some c', tr'')
                   | (Inl ex, tr'') \<Rightarrow> (Inl (credentials_error_from ex), Some c', tr'')))
           else (Inl (HTTPStatusError r), Some c, tr))
      | (Inl ex, tr) \<Rightarrow> (Inl ex, Some c, tr))"
  unfolding api_request_def Let_def resource_url_def by (cases c) (hypsubst, simp, hypsubst, simp)

lemma api_request_str:
  assumes "c \<noteq> []"
    and "dict_get c ''access_token'' (JStr []) = JStr tok"
  shows "api_request e (Some c) path =
     (case get_outcome (send e [] (bearer_get path tok)) of
        Inr j \<Rightarrow> (Inr j, Some c, [bearer_get path tok])
      | Inl (HTTPStatusError r) \<Rightarrow>
          (if status_code r = 401 then
             (case refresh_access_token e [bearer_get path tok] c of
                (Inl ex, c', tr') \<Rightarrow> (Inl (credentials_error_from ex), Some c', tr')
              | (Inr a, c', tr') \<Rightarrow>
                  (case do_resource_get e tr' a (resource_url path) of
                     (Inr j, tr'') \<Rightarrow> (Inr j, Some c', tr'')
                   | (Inl ex, tr'') \<Rightarrow> (Inl (credentials_error_from ex), Some c', tr'')))
           else (Inl (HTTPStatusError r), Some c, [bearer_get path tok]))
      | Inl ex \<Rightarrow> (Inl ex, Some c, [bearer_get path tok]))"
  using assms
  by (simp add: api_request_nonempty resource_get_bearer split: sum.splits error.splits)

lemma api_request_not_str:
  assumes "c \<noteq> []"
    and "\<forall>tok. dict_get c ''access_token'' (JStr []) \<noteq> JStr tok"
  shows "api_request e (Some c) path = (Inl TypeError, Some c, [])"
  using assms by (simp add: api_request_nonempty resource_get_not_str)

lemma get_outcome_401:
  "send e tr req = Response r \<Longrightarrow> status_code r = 401 \<Longrightarrow>
     get_outcome (send e tr req) = Inl (HTTPStatusError r)"
  by (simp add: get_outcome_def is_success_def)

lemma first_get_401:
  assumes "c \<noteq> []"
    and "dict_get c ''access_token'' (JStr []) = JStr tok"
    and "send e [] (bearer_get path tok) = Response r1"
    and "status_code r1 = 401"
  shows "api_request e (Some c) path =
     (case refresh_access_token e [bearer_get path tok] c of
        (Inl ex, c', tr') \<Rightarrow> (Inl (credentials_error_from ex), Some c', tr')
      | (Inr a, c', tr') \<Rightarrow>
          (case do_resource_get e tr' a (resource_url path) of
             (Inr j, tr'') \<Rightarrow> (Inr j, Some c', tr'')
           | (Inl ex, tr'') \<Rightarrow> (Inl (credentials_error_from ex), Some c', tr'')))"
  using assms(4)
  by (simp add: api_request_str [OF assms(1) assms(2)] get_outcome_401 [OF assms(3) assms(4)])

lemma refreshed_then_retry:
  assumes "c \<noteq> []"
    and "dict_get c ''access_token'' (JStr '''') = JStr tok"
    and "map_of c ''refresh_token'' = Some rt"
    and "map_of c ''client_id'' = Some cid"
    and "map_of c ''client_secret'' = Some cs"
    and "send e [] (bearer_get path tok) = Response r1"
    and "status_code r1 = 401"
    and "send e [bearer_get path tok] (refresh_post e cid cs rt) = Response r2"
    and "is_success r2"
    and "json_body r2 = Some (JObj d)"
    and "map_of d ''access_token'' = Some (JStr tok')"
    and "map_of d ''refresh_token'' = Some rt'"
  shows "api_request e (Some c) path =
     ((case get_outcome (send e [bearer_get path tok, refresh_post e cid cs rt]
                          (bearer_get path tok')) of
         Inl ex \<Rightarrow> Inl (credentials_error_from ex)
       | Inr j \<Rightarrow> Inr j),
      Some (AList.update ''refresh_token'' rt' (AList.update ''access_token'' (JStr tok') c)),
      [bearer_get path tok, refresh_post e cid cs rt, bearer_get path tok'])"
proof -
  have "refresh_access_token e [bearer_get path tok] c =
      (Inr (JStr tok'),
       AList.update ''refresh_token'' rt' (AList.update ''access_token'' (JStr tok') c),
       [bearer_get path tok, refresh_post e cid cs rt])"
    using assms(8-12)
    by (simp add: refresh_ok [OF assms(3) assms(4) assms(5)] get_outcome_def response_json_def)
  then show ?thesis
    by (simp add: first_get_401 [OF assms(1) assms(2) assms(6) assms(7)] resource_get_bearer
        split: sum.splits)
qed

lemma refresh_rejected:
  assumes "c \<noteq> []"
    and "dict_get c ''access_token'' (JStr []) = JStr tok"
    and "map_of c ''refresh_token'' = Some rt"
    and "map_of c ''client_id'' = Some cid"
    and "map_of c ''client_secret'' = Some cs"
    and "send e [] (bearer_get path tok) = Response r1"
    and "status_code r1 = 401"
    and "send e [bearer_get path tok] (refresh_post e cid cs rt) = Response r2"
    and "\<not> is_success r2"
  shows "api_request e (Some c) path =
     (Inl (case json_body r2 of None \<Rightarrow> JSONDecodeError | Some j \<Rightarrow> CredentialsError (Some j)),
      Some c, [bearer_get path tok, refresh_post e cid cs rt])"
proof -
  have "refresh_access_token e [bearer_get path tok] c =
      (Inl (HTTPStatusError r2), c, [bearer_get path tok, refresh_post e cid cs rt])"
    using assms(8,9) by (simp add: refresh_ok [OF assms(3) assms(4) assms(5)] get_outcome_def)
  then show ?thesis
    by (simp add: first_get_401 [OF assms(1) assms(2) assms(6) assms(7)]
        credentials_error_from_def response_json_def split: option.splits)
qed

lemma creds_expired_facts:
  "creds_expired \<noteq> []"
  "dict_get creds_expired ''access_token'' (JStr []) = JStr ''expired''"
  "map_of creds_expired ''refresh_token'' = Some (JStr ''R1'')"
  "map_of creds_expired ''client_id'' = Some (JStr ''A'')"
  "map_of creds_expired ''client_secret'' = Some (JStr ''B'')"
  by (simp_all add: creds_expired_def dict_get_def)

lemma new_tokens_facts:
  "json_body \<lparr>status_code = 200, json_body = Some new_tokens\<rparr> =
     Some (JObj [(''access_token'', JStr ''new''), (''refresh_token'', JStr ''R2'')])"
  "is_success \<lparr>status_code = 200, json_body = Some new_tokens\<rparr>"
  "map_of [(''access_token'', JStr ''new''), (''refresh_token'', JStr ''R2'')]
     ''access_token'' = Some (JStr ''new'')"
  "map_of [(''access_token'', JStr ''new''), (''refresh_token'', JStr ''R2'')]
     ''refresh_token'' = Some (JStr ''R2'')"
  by (simp_all add: new_tokens_def is_success_def)

lemma status_facts:
  "status_code \<lparr>status_code = s, json_body = b\<rparr> = s"
  "json_body \<lparr>status_code = s, json_body = b\<rparr> = b"
  by simp_all

lemma api_request_None:
  "api_request e None path = (Inl (CredentialsError None), None, [])"
  by (simp add: api_request_def)

lemma api_request_empty:
  "api_request e (Some []) path = (Inl (CredentialsError None), Some [], [])"
  by (simp add: api_request_def)

lemma do_resource_get_shape:
  assumes "do_resource_get e tr a url = (res, tr')"
  shows "(tr' = tr \<and> res = Inl TypeError \<and> (\<forall>tok. a \<noteq> JStr tok))
       \<or> (\<exists>tok. a = JStr tok
              \<and> tr' = tr @ [GET url [(''Authorization'', ''Bearer '' @ tok)]]
              \<and> res = get_outcome (send e tr (GET url [(''Authorization'', ''Bearer '' @ tok)])))"
  using assms
  by (cases a)
     (auto simp: do_resource_get_def raise_for_status_def get_outcome_def Let_def
        split: reply.splits if_splits)

lemma get_outcome_error:
  assumes "get_outcome rp = Inl ex"
  shows "(\<forall>p. ex \<noteq> CredentialsError p)
       \<and> (\<forall>r. ex = HTTPStatusError r \<longrightarrow> rp = Response r \<and> \<not> is_success r)"
  using assms
  by (auto simp: get_outcome_def response_json_def split: reply.splits if_splits option.splits)

lemma refresh_shape:
  assumes "refresh_access_token e tr c = (res, c', tr')"
  shows "(tr' = tr \<and> c' = c \<and> (\<exists>k. res = Inl (KeyError k)))
       \<or> (\<exists>req. is_POST req \<and> tr' = tr @ [req]
             \<and> (\<forall>k. k \<noteq> ''access_token'' \<and> k \<noteq> ''refresh_token'' \<longrightarrow> map_of c' k = map_of c k)
             \<and> (\<forall>p. res \<noteq> Inl (CredentialsError p))
             \<and> (\<forall>r. res = Inl (HTTPStatusError r) \<longrightarrow>
                    send e tr req = Response r \<and> \<not> is_success r \<and> c' = c))"
proof (cases "map_of c ''refresh_token'' = None \<or> map_of c ''client_id'' = None
              \<or> map_of c ''client_secret'' = None")
  case True
  from refresh_missing_key [OF True, of e tr] assms show ?thesis
    by auto
next
  case False
  then obtain rt cid cs where k: "map_of c ''refresh_token'' = Some rt"
      "map_of c ''client_id'' = Some cid" "map_of c ''client_secret'' = Some cs"
    by auto
  let ?req = "refresh_post e cid cs rt"
  have post: "is_POST ?req"
    by (simp add: is_POST_def refresh_post_def)
  have tr': "tr' = tr @ [?req]"
    using assms by (auto simp: refresh_ok [OF k] split: sum.splits)
  have frame: "\<forall>k. k \<noteq> ''access_token'' \<and> k \<noteq> ''refresh_token'' \<longrightarrow> map_of c' k = map_of c k"
    using assms by (auto simp: refresh_ok [OF k] update_conv' split: sum.splits)
  have data_err: "\<And>d k ex. getitem d k = Inl ex \<Longrightarrow>
      (\<forall>p. ex \<noteq> CredentialsError p) \<and> (\<forall>r. ex \<noteq> HTTPStatusError r)"
  proof -
    fix d k ex assume "getitem d k = Inl ex"
    then show "(\<forall>p. ex \<noteq> CredentialsError p) \<and> (\<forall>r. ex \<noteq> HTTPStatusError r)"
      by (cases d) (auto split: option.splits)
  qed
  have nocred: "\<forall>p. res \<noteq> Inl (CredentialsError p)"
    using assms
    by (auto simp: refresh_ok [OF k] split: sum.splits
        dest: get_outcome_error data_err)
  have http: "\<forall>r. res = Inl (HTTPStatusError r) \<longrightarrow>
      send e tr ?req = Response r \<and> \<not> is_success r \<and> c' = c"
    using assms
    by (auto simp: refresh_ok [OF k] split: sum.splits
        dest: get_outcome_error data_err)
  show ?thesis
    using post tr' frame nocred http by blast
qed

lemma credentials_error_from_cases:
  assumes "credentials_error_from ex = CredentialsError p"
  shows "ex = CredentialsError p \<or> (\<exists>r j. ex = HTTPStatusError r \<and> json_body r = Some j \<and> p = Some j)"
  using assms
  by (cases ex)
     (auto simp: credentials_error_from_def response_json_def split: option.splits dest: sym)

lemma api_request_trace:
  assumes "c \<noteq> []"
    and "dict_get c ''access_token'' (JStr []) = JStr tok"
    and "api_request e (Some c) path = (res, creds', tr)"
  shows "(\<exists>rest. tr = bearer_get path tok # rest)
       \<and> (\<forall>req \<in> set tr. is_GET req \<longrightarrow> (\<exists>t. req = bearer_get path t))"
proof -
  let ?g1 = "bearer_get path tok"
  have npost: "\<And>req. is_POST req \<Longrightarrow> \<not> is_GET req"
    by (simp add: is_GET_def is_POST_def split: request.splits)
  show ?thesis
  proof (cases "\<exists>r. get_outcome (send e [] ?g1) = Inl (HTTPStatusError r) \<and> status_code r = 401")
    case False
    then have "tr = [?g1]"
      using assms(3)
      by (auto simp: api_request_str [OF assms(1) assms(2)] split: sum.splits error.splits if_splits)
    then show ?thesis by auto
  next
    case True
    then obtain r where r: "get_outcome (send e [] ?g1) = Inl (HTTPStatusError r)"
        "status_code r = 401"
      by blast
    obtain rres c1 tr1 where refr: "refresh_access_token e [?g1] c = (rres, c1, tr1)"
      by (cases "refresh_access_token e [?g1] c") auto
    from refresh_shape [OF refr]
    have tr1: "tr1 = [?g1] \<or> (\<exists>req. is_POST req \<and> tr1 = [?g1, req])"
      by auto
    show ?thesis
    proof (cases rres)
      case (Inl ex)
      then have "tr = tr1"
        using assms(3) r refr by (simp add: api_request_str [OF assms(1) assms(2)])
      then show ?thesis
        using tr1 npost by fastforce
    next
      case (Inr a)
      obtain res2 tr2 where get2: "do_resource_get e tr1 a (resource_url path) = (res2, tr2)"
        by (cases "do_resource_get e tr1 a (resource_url path)") auto
      have "tr = tr2"
        using assms(3) r refr Inr get2
        by (auto simp: api_request_str [OF assms(1) assms(2)] split: sum.splits)
      moreover from do_resource_get_shape [OF get2]
      have "tr2 = tr1 \<or> (\<exists>t. tr2 = tr1 @ [bearer_get path t])"
        by (auto simp: bearer_get_def resource_url_def)
      ultimately show ?thesis
        using tr1 npost by fastforce
    qed
  qed
qed

lemma api_request_run:
  assumes "c \<noteq> []"
    and "api_request e (Some c) path = (res, creds', tr)"
  shows "((\<forall>tok. dict_get c ''access_token'' (JStr []) \<noteq> JStr tok)
          \<and> res = Inl TypeError \<and> creds' = Some c \<and> tr = [])
       \<or> (\<exists>tok. dict_get c ''access_token'' (JStr []) = JStr tok
              \<and> res = get_outcome (send e [] (bearer_get path tok))
              \<and> creds' = Some c \<and> tr = [bearer_get path tok]
              \<and> (\<forall>r. res = Inl (HTTPStatusError r) \<longrightarrow> status_code r \<noteq> 401))
       \<or> (\<exists>tok r1 rres c1 tr1.
              dict_get c ''access_token'' (JStr []) = JStr tok
              \<and> send e [] (bearer_get path tok) = Response r1 \<and> status_code r1 = 401
              \<and> refresh_access_token e [bearer_get path tok] c = (rres, c1, tr1)
              \<and> creds' = Some c1
              \<and> ((\<exists>ex. rres = Inl ex \<and> res = Inl (credentials_error_from ex) \<and> tr = tr1)
                 \<or> (\<exists>a res2. rres = Inr a
                       \<and> do_resource_get e tr1 a (resource_url path) = (res2, tr)
                       \<and> ((\<exists>ex. res2 = Inl ex \<and> res = Inl (credentials_error_from ex))
                          \<or> (\<exists>j. res2 = Inr j \<and> res = Inr j)))))"
proof (cases "\<exists>tok. dict_get c ''access_token'' (JStr []) = JStr tok")
  case False
  then show ?thesis
    using assms(2) api_request_not_str [OF assms(1), of e path] by auto
next
  case True
  then obtain tok where tok: "dict_get c ''access_token'' (JStr []) = JStr tok"
    by blast
  let ?g1 = "bearer_get path tok"
  note unfold = api_request_str [OF assms(1) tok, of e path]
  show ?thesis
  proof (cases "\<exists>r. get_outcome (send e [] ?g1) = Inl (HTTPStatusError r) \<and> status_code r = 401")
    case False
    then have "res = get_outcome (send e [] ?g1) \<and> creds' = Some c \<and> tr = [?g1]"
      using assms(2) unfold by (auto split: sum.splits error.splits if_splits)
    then show ?thesis
      using tok False by auto
  next
    case True
    then obtain r1 where r1: "get_outcome (send e [] ?g1) = Inl (HTTPStatusError r1)"
        "status_code r1 = 401"
      by blast
    from get_outcome_error [OF r1(1)] have sent: "send e [] ?g1 = Response r1"
      by simp
    obtain rres c1 tr1 where refr: "refresh_access_token e [?g1] c = (rres, c1, tr1)"
      by (cases "refresh_access_token e [?g1] c") auto
    have third: "creds' = Some c1
        \<and> ((\<exists>ex. rres = Inl ex \<and> res = Inl (credentials_error_from ex) \<and> tr = tr1)
           \<or> (\<exists>a res2. rres = Inr a
                 \<and> do_resource_get e tr1 a (resource_url path) = (res2, tr)
                 \<and> ((\<exists>ex. res2 = Inl ex \<and> res = Inl (credentials_error_from ex))
                    \<or> (\<exists>j. res2 = Inr j \<and> res = Inr j))))"
    proof (cases rres)
      case (Inl ex)
      then show ?thesis
        using assms(2) unfold r1 refr by simp
    next
      case (Inr a)
      obtain res2 tr2 where get2: "do_resource_get e tr1 a (resource_url path) = (res2, tr2)"
        by (cases "do_resource_get e tr1 a (resource_url path)") auto
      show ?thesis
        using assms(2) unfold r1 refr Inr get2 by (cases res2) auto
    qed
    show ?thesis
      using tok sent r1(2) refr third by blast
  qed
qed

lemma refresh_no_credentials_error:
  "refresh_access_token e tr c = (Inl ex, c', tr') \<Longrightarrow> ex \<noteq> CredentialsError p"
  by (drule refresh_shape) blast

lemma refresh_http_error:
  assumes "refresh_access_token e tr c = (Inl (HTTPStatusError r), c', tr')"
  shows "\<exists>req. is_POST req \<and> tr' = tr @ [req] \<and> send e tr req = Response r
           \<and> \<not> is_success r \<and> c' = c"
  using refresh_shape [OF assms] by blast

lemma refresh_frame:
  assumes "refresh_access_token e tr c = (res, c', tr')"
    and "k \<noteq> ''access_token''" and "k \<noteq> ''refresh_token''"
  shows "map_of c' k = map_of c k"
  using refresh_shape [OF assms(1)] assms(2,3) by blast

lemma refresh_trace:
  assumes "refresh_access_token e tr c = (res, c', tr')"
  shows "(tr' = tr \<and> c' = c) \<or> (\<exists>req. is_POST req \<and> tr' = tr @ [req])"
  using refresh_shape [OF assms] by blast

lemma resource_get_no_credentials_error:
  assumes "do_resource_get e tr a url = (Inl ex, tr')"
  shows "ex \<noteq> CredentialsError p"
proof
  assume ex: "ex = CredentialsError p"
  from do_resource_get_shape [OF assms] ex
  obtain tok where "Inl (CredentialsError p) =
      get_outcome (send e tr (GET url [(''Authorization'', ''Bearer '' @ tok)]))"
    by auto
  from get_outcome_error [OF this [symmetric]] show False
    by simp
qed

lemma resource_get_http_error:
  assumes "do_resource_get e tr a url = (Inl (HTTPStatusError r), tr')"
  shows "\<exists>req. is_GET req \<and> tr' = tr @ [req] \<and> send e tr req = Response r \<and> \<not> is_success r"
proof -
  from do_resource_get_shape [OF assms]
  obtain tok where t: "tr' = tr @ [GET url [(''Authorization'', ''Bearer '' @ tok)]]"
      "Inl (HTTPStatusError r) =
         get_outcome (send e tr (GET url [(''Authorization'', ''Bearer '' @ tok)]))"
    by auto
  from get_outcome_error [OF t(2) [symmetric]]
  have "send e tr (GET url [(''Authorization'', ''Bearer '' @ tok)]) = Response r"
      "\<not> is_success r"
    by simp_all
  moreover have "is_GET (GET url [(''Authorization'', ''Bearer '' @ tok)])"
    by (simp add: is_GET_def)
  ultimately show ?thesis
    using t(1) by blast
qed

lemma resource_get_trace:
  assumes "do_resource_get e tr a url = (res, tr')"
  shows "tr' = tr \<or> (\<exists>req. is_GET req \<and> tr' = tr @ [req])"
proof -
  have "\<And>tok. is_GET (GET url [(''Authorization'', ''Bearer '' @ tok)])"
    by (simp add: is_GET_def)
  then show ?thesis
    using do_resource_get_shape [OF assms] by blast
qed

lemma api_request_token_not_str:
  assumes "c \<noteq> []"
    and "map_of c ''access_token'' = Some v"
    and "\<forall>tok. v \<noteq> JStr tok"
  shows "api_request e (Some c) path = (Inl TypeError, Some c, [])"
  using assms by (simp add: api_request_not_str dict_get_def)

lemma api_request_gets:
  assumes "api_request e creds path = (res, creds', tr)"
  shows "\<forall>req \<in> set tr. is_GET req \<longrightarrow> (\<exists>t. req = bearer_get path t)"
proof (cases "creds = None \<or> creds = Some []")
  case True
  then show ?thesis
    using assms by (auto simp: api_request_None api_request_empty)
next
  case False
  then obtain c where c: "creds = Some c" "c \<noteq> []"
    by auto
  show ?thesis
  proof (cases "\<exists>tok. dict_get c ''access_token'' (JStr []) = JStr tok")
    case True
    then obtain tok where "dict_get c ''access_token'' (JStr []) = JStr tok"
      by blast
    from api_request_trace [OF c(2) this assms [unfolded c(1)]] show ?thesis
      by blast
  next
    case False
    then show ?thesis
      using assms api_request_not_str [OF c(2), of e path] by (simp add: c(1))
  qed
qed

lemma retry_rejected:
  assumes "c \<noteq> []"
    and "dict_get c ''access_token'' (JStr []) = JStr tok"
    and "map_of c ''refresh_token'' = Some rt"
    and "map_of c ''client_id'' = Some cid"
    and "map_of c ''client_secret'' = Some cs"
    and "send e [] (bearer_get path tok) = Response r1"
    and "status_code r1 = 401"
    and "send e [bearer_get path tok] (refresh_post e cid cs rt) = Response r2"
    and "is_success r2"
    and "json_body r2 = Some (JObj d)"
    and "map_of d ''access_token'' = Some (JStr tok')"
    and "map_of d ''refresh_token'' = Some rt'"
    and "send e [bearer_get path tok, refresh_post e cid cs rt] (bearer_get path tok')
           = Response r3"
    and "\<not> is_success r3"
  shows "api_request e (Some c) path =
     (Inl (case json_body r3 of None \<Rightarrow> JSONDecodeError | Some j \<Rightarrow> CredentialsError (Some j)),
      Some (AList.update ''refresh_token'' rt' (AList.update ''access_token'' (JStr tok') c)),
      [bearer_get path tok, refresh_post e cid cs rt, bearer_get path tok'])"
  using assms(13,14)
  by (simp add: refreshed_then_retry [OF assms(1-12)] get_outcome_def
      credentials_error_from_def response_json_def split: option.splits)

lemma get_spo2_trace:
  "(\<forall>req \<in> set (snd (snd (get_spo2 e creds d eo))).
       is_GET req \<longrightarrow> (\<exists>t. req = bearer_get (spo2_url_path e d eo) t))
   \<and> (\<forall>c tok. creds = Some c \<and> c \<noteq> []
         \<and> (map_of c ''access_token'' = None \<and> tok = []
            \<or> map_of c ''access_token'' = Some (JStr tok)) \<longrightarrow>
       (\<exists>rest. snd (snd (get_spo2 e creds d eo)) = bearer_get (spo2_url_path e d eo) tok # rest))
   \<and> (creds = None \<or> creds = Some []
         \<or> (\<exists>c v. creds = Some c \<and> map_of c ''access_token'' = Some v
                \<and> (\<forall>tok. v \<noteq> JStr tok)) \<longrightarrow>
       snd (snd (get_spo2 e creds d eo)) = [])"
proof -
  let ?path = "spo2_url_path e d eo"
  obtain res creds' tr where run: "api_request e creds ?path = (res, creds', tr)"
    by (cases "api_request e creds ?path") auto
  have gets: "\<forall>req \<in> set tr. is_GET req \<longrightarrow> (\<exists>t. req = bearer_get ?path t)"
    by (rule api_request_gets [OF run])
  have first: "\<exists>rest. tr = bearer_get ?path tok # rest"
    if "creds = Some c" "c \<noteq> []"
      "map_of c ''access_token'' = None \<and> tok = [] \<or> map_of c ''access_token'' = Some (JStr tok)"
    for c tok
  proof -
    have "dict_get c ''access_token'' (JStr []) = JStr tok"
      using that(3) by (auto simp: dict_get_def)
    from api_request_trace [OF that(2) this run [unfolded that(1)]] show ?thesis
      by blast
  qed
  have none: "tr = []"
    if asm: "creds = None \<or> creds = Some []
        \<or> (\<exists>c v. creds = Some c \<and> map_of c ''access_token'' = Some v \<and> (\<forall>tok. v \<noteq> JStr tok))"
  proof (cases "creds = None \<or> creds = Some []")
    case True
    then show ?thesis
      using run by (auto simp: api_request_None api_request_empty)
  next
    case False
    then obtain c v where cv: "creds = Some c" "map_of c ''access_token'' = Some v"
        "\<forall>tok. v \<noteq> JStr tok"
      using asm by blast
    have ne: "c \<noteq> []"
      using False cv(1) by auto
    show ?thesis
      using run api_request_token_not_str [OF ne cv(2) cv(3), of e ?path] by (simp add: cv(1))
  qed
  show ?thesis
    unfolding get_spo2_def run using gets first none by simp
qed

lemma decimal_four_digits:
  assumes "1000 \<le> n" and "n \<le> 9999"
  shows "decimal n = [digit (n div 1000), digit (n div 100), digit (n div 10), digit n]"
proof -
  have a: "decimal n = decimal (n div 10) @ [digit n]"
    using assms by (subst decimal.simps) simp
  have b: "decimal (n div 10) = decimal (n div 100) @ [digit (n div 10)]"
    using assms by (subst decimal.simps) (simp add: div_mult2_eq [symmetric])
  have c: "decimal (n div 100) = decimal (n div 1000) @ [digit (n div 100)]"
    using assms by (subst decimal.simps) (simp add: div_mult2_eq [symmetric])
  have d: "decimal (n div 1000) = [digit (n div 1000)]"
    using assms by (subst decimal.simps) simp
  show ?thesis
    by (simp only: a b c d append.simps)
qed

lemma strftime_Ymd_linux_from_1000:
  assumes "1000 \<le> year d" and "year d \<le> 9999"
  shows "strftime_Ymd_linux d =
     [digit (year d div 1000), digit (year d div 100), digit (year d div 10), digit (year d),
      CHR ''-'', digit (month d div 10), digit (month d),
      CHR ''-'', digit (day d div 10), digit (day d)]"
  by (simp add: strftime_Ymd_linux_def decimal_four_digits [OF assms] del: decimal.simps)

lemma day_texts:
  "strftime_Ymd_linux day1 = ''2024-01-01''"
  "strftime_Ymd_linux day2 = ''2024-01-02''"
  by (simp_all add: strftime_Ymd_linux_def day1_def day2_def digit_def)

section \<open>Refresh and retry\<close>

text \<open>
  C1. Let the credentials be a non-empty dict that holds \<open>client_id\<close>,
  \<open>client_secret\<close> and a refresh token, with an access token that is a string (or
  absent, read as the empty string). If the first GET is answered 401 and the token
  endpoint accepts the refresh token, answering 2xx with a JSON object that holds a
  string \<open>access_token\<close> and a \<open>refresh_token\<close>, then the call sends exactly three
  requests: the first GET, one refresh POST, and one retried GET carrying the new
  token. If the retry is answered 2xx with JSON body \<open>j\<close>, the call returns \<open>j\<close> and
  leaves \<open>creds['access_token']\<close> and \<open>creds['refresh_token']\<close> at the values of the
  refresh response.
\<close>

theorem C1_refresh_once_retry_once:
  assumes "c \<noteq> []"
    and "dict_get c ''access_token'' (JStr '''') = JStr tok"
    and "map_of c ''refresh_token'' = Some rt"
    and "map_of c ''client_id'' = Some cid"
    and "map_of c ''client_secret'' = Some cs"
    and "send e [] (bearer_get path tok) = Response r1"
    and "status_code r1 = 401"
    and "send e [bearer_get path tok] (refresh_post e cid cs rt) = Response r2"
    and "is_success r2"
    and "json_body r2 = Some (JObj d)"
    and "map_of d ''access_token'' = Some (JStr tok')"
    and "map_of d ''refresh_token'' = Some rt'"
  shows "snd (snd (api_request e (Some c) path)) =
           [bearer_get path tok, refresh_post e cid cs rt, bearer_get path tok']
       \<and> length (filter is_POST (snd (snd (api_request e (Some c) path)))) = 1
       \<and> length (filter is_GET (snd (snd (api_request e (Some c) path)))) = 2
       \<and> (\<forall>r3 j. send e [bearer_get path tok, refresh_post e cid cs rt] (bearer_get path tok')
                    = Response r3 \<and> is_success r3 \<and> json_body r3 = Some j \<longrightarrow>
            (\<exists>c'. api_request e (Some c) path =
                     (Inr j, Some c',
                      [bearer_get path tok, refresh_post e cid cs rt, bearer_get path tok'])
                 \<and> map_of c' ''access_token'' = Some (JStr tok')
                 \<and> map_of c' ''refresh_token'' = Some rt'))"
  by (simp add: refreshed_then_retry [OF assms] get_outcome_def response_json_def update_conv'
      is_POST_def is_GET_def bearer_get_def refresh_post_def)

theorem C1_witness:
  "snd (snd (api_request env_refreshed (Some creds_expired)
               ''spo2/date/2024-01-01/2024-01-02.json'')) =
     [bearer_get ''spo2/date/2024-01-01/2024-01-02.json'' ''expired'',
      refresh_post env_refreshed (JStr ''A'') (JStr ''B'') (JStr ''R1''),
      bearer_get ''spo2/date/2024-01-01/2024-01-02.json'' ''new'']
   \<and> length (filter is_POST (snd (snd (api_request env_refreshed (Some creds_expired)
               ''spo2/date/2024-01-01/2024-01-02.json'')))) = 1
   \<and> length (filter is_GET (snd (snd (api_request env_refreshed (Some creds_expired)
               ''spo2/date/2024-01-01/2024-01-02.json'')))) = 2
   \<and> (\<exists>c'. api_request env_refreshed (Some creds_expired)
               ''spo2/date/2024-01-01/2024-01-02.json'' =
          (Inr spo2_records, Some c',
           [bearer_get ''spo2/date/2024-01-01/2024-01-02.json'' ''expired'',
            refresh_post env_refreshed (JStr ''A'') (JStr ''B'') (JStr ''R1''),
            bearer_get ''spo2/date/2024-01-01/2024-01-02.json'' ''new''])
        \<and> map_of c' ''access_token'' = Some (JStr ''new'')
        \<and> map_of c' ''refresh_token'' = Some (JStr ''R2''))"
proof -
  let ?p = "''spo2/date/2024-01-01/2024-01-02.json''"
  let ?g1 = "bearer_get ?p ''expired''"
  let ?po = "refresh_post env_refreshed (JStr ''A'') (JStr ''B'') (JStr ''R1'')"
  let ?g2 = "bearer_get ?p ''new''"
  have h1: "creds_expired \<noteq> []" by (simp add: creds_expired_def)
  have h2: "dict_get creds_expired ''access_token'' (JStr '''') = JStr ''expired''"
    by (simp add: creds_expired_def dict_get_def)
  have h3: "map_of creds_expired ''refresh_token'' = Some (JStr ''R1'')"
    by (simp add: creds_expired_def)
  have h4: "map_of creds_expired ''client_id'' = Some (JStr ''A'')"
    by (simp add: creds_expired_def)
  have h5: "map_of creds_expired ''client_secret'' = Some (JStr ''B'')"
    by (simp add: creds_expired_def)
  have h6: "send env_refreshed [] ?g1 = Response \<lparr>status_code = 401, json_body = Some (error_body ''expired_token'')\<rparr>"
    by (simp add: env_refreshed_def scripted_def)
  have h7: "status_code \<lparr>status_code = 401, json_body = Some (error_body ''expired_token'')\<rparr> = 401" by simp
  have h8: "send env_refreshed [?g1] ?po = Response \<lparr>status_code = 200, json_body = Some new_tokens\<rparr>"
    by (simp add: env_refreshed_def scripted_def)
  have h9: "is_success \<lparr>status_code = 200, json_body = Some new_tokens\<rparr>"
    by (simp add: is_success_def)
  have h10: "json_body \<lparr>status_code = 200, json_body = Some new_tokens\<rparr> =
      Some (JObj [(''access_token'', JStr ''new''), (''refresh_token'', JStr ''R2'')])"
    by (simp add: new_tokens_def)
  have h11: "map_of [(''access_token'', JStr ''new''), (''refresh_token'', JStr ''R2'')]
      ''access_token'' = Some (JStr ''new'')" by simp
  have h12: "map_of [(''access_token'', JStr ''new''), (''refresh_token'', JStr ''R2'')]
      ''refresh_token'' = Some (JStr ''R2'')" by simp
  have h13: "send env_refreshed [?g1, ?po] ?g2 =
      Response \<lparr>status_code = 200, json_body = Some spo2_records\<rparr>"
    by (simp add: env_refreshed_def scripted_def)
  note t = C1_refresh_once_retry_once [OF h1 h2 h3 h4 h5 h6 h7 h8 h9 h10 h11 h12]
  from t have "\<forall>r3 j. send env_refreshed [?g1, ?po] ?g2 = Response r3
        \<and> is_success r3 \<and> json_body r3 = Some j \<longrightarrow>
      (\<exists>c'. api_request env_refreshed (Some creds_expired) ?p = (Inr j, Some c', [?g1, ?po, ?g2])
         \<and> map_of c' ''access_token'' = Some (JStr ''new'')
         \<and> map_of c' ''refresh_token'' = Some (JStr ''R2''))"
    by blast
  with h13 have "\<exists>c'. api_request env_refreshed (Some creds_expired) ?p =
        (Inr spo2_records, Some c', [?g1, ?po, ?g2])
      \<and> map_of c' ''access_token'' = Some (JStr ''new'')
      \<and> map_of c' ''refresh_token'' = Some (JStr ''R2'')"
    by (simp add: is_success_def)
  with t show ?thesis by blast
qed


text \<open>
  C2. After a 401 and an accepted refresh, a retried GET that fails with an error
  status should end the call with \<open>CredentialsError\<close> carrying the server's error body,
  with no further retry or refresh. The handler builds the exception from
  \<open>ex.response.json()\<close>, so this is what happens when the failing response has a JSON
  body (lemma \<open>retry_rejected\<close>). In the run below the retry is answered 502 with a
  body that is not JSON: decoding raises inside the handler, and the call ends with the
  decoder's error instead of \<open>CredentialsError\<close>. The requests are still the first
  GET, the one refresh POST and the one retried GET, and the credentials hold the
  refreshed tokens.
\<close>

theorem C2_retry_body_not_json:
  "send env_retry_bad_gateway []
      (bearer_get ''spo2/date/2024-01-01/2024-01-02.json'' ''expired'')
     = Response \<lparr>status_code = 401, json_body = Some (error_body ''expired_token'')\<rparr>
   \<and> send env_retry_bad_gateway
        [bearer_get ''spo2/date/2024-01-01/2024-01-02.json'' ''expired'']
        (refresh_post env_retry_bad_gateway (JStr ''A'') (JStr ''B'') (JStr ''R1''))
     = Response \<lparr>status_code = 200, json_body = Some new_tokens\<rparr>
   \<and> send env_retry_bad_gateway
        [bearer_get ''spo2/date/2024-01-01/2024-01-02.json'' ''expired'',
         refresh_post env_retry_bad_gateway (JStr ''A'') (JStr ''B'') (JStr ''R1'')]
        (bearer_get ''spo2/date/2024-01-01/2024-01-02.json'' ''new'')
     = Response \<lparr>status_code = 502, json_body = None\<rparr>
   \<and> api_request env_retry_bad_gateway (Some creds_expired)
        ''spo2/date/2024-01-01/2024-01-02.json''
     = (Inl JSONDecodeError,
        Some [(''client_id'', JStr ''A''), (''client_secret'', JStr ''B''),
              (''access_token'', JStr ''new''), (''refresh_token'', JStr ''R2'')],
        [bearer_get ''spo2/date/2024-01-01/2024-01-02.json'' ''expired'',
         refresh_post env_retry_bad_gateway (JStr ''A'') (JStr ''B'') (JStr ''R1''),
         bearer_get ''spo2/date/2024-01-01/2024-01-02.json'' ''new''])
   \<and> \<not> raises_CredentialsError
          (fst (api_request env_retry_bad_gateway (Some creds_expired)
                  ''spo2/date/2024-01-01/2024-01-02.json''))"
proof -
  let ?p = "''spo2/date/2024-01-01/2024-01-02.json''"
  let ?g1 = "bearer_get ?p ''expired''"
  let ?po = "refresh_post env_retry_bad_gateway (JStr ''A'') (JStr ''B'') (JStr ''R1'')"
  let ?g2 = "bearer_get ?p ''new''"
  have h6: "send env_retry_bad_gateway [] ?g1 =
      Response \<lparr>status_code = 401, json_body = Some (error_body ''expired_token'')\<rparr>"
    by (simp add: env_retry_bad_gateway_def scripted_def)
  have h8: "send env_retry_bad_gateway [?g1] ?po =
      Response \<lparr>status_code = 200, json_body = Some new_tokens\<rparr>"
    by (simp add: env_retry_bad_gateway_def scripted_def)
  have h13: "send env_retry_bad_gateway [?g1, ?po] ?g2 =
      Response \<lparr>status_code = 502, json_body = None\<rparr>"
    by (simp add: env_retry_bad_gateway_def scripted_def)
  have h14: "\<not> is_success \<lparr>status_code = 502, json_body = None\<rparr>"
    by (simp add: is_success_def)
  have run: "api_request env_retry_bad_gateway (Some creds_expired) ?p =
      (Inl JSONDecodeError,
       Some [(''client_id'', JStr ''A''), (''client_secret'', JStr ''B''),
             (''access_token'', JStr ''new''), (''refresh_token'', JStr ''R2'')],
       [?g1, ?po, ?g2])"
    unfolding retry_rejected
        [OF creds_expired_facts h6 status_facts(1) h8 new_tokens_facts(2) new_tokens_facts(1)
            new_tokens_facts(3) new_tokens_facts(4) h13 h14]
    by (simp add: creds_expired_def)
  show ?thesis
    unfolding run using h6 h8 h13 by (simp add: raises_CredentialsError_def)
qed

section \<open>A refresh that is refused\<close>

text \<open>
  C3. After a 401, a refresh POST that fails with an error status should end the call
  with \<open>CredentialsError\<close> and leave the credentials exactly as they were. The
  credentials are indeed untouched for every failing refresh, and no request follows
  the POST; the exception is \<open>CredentialsError\<close> carrying the body when the failing
  response has a JSON body (lemma \<open>refresh_rejected\<close>). In the run below the refresh
  POST is answered 502 with a body that is not JSON: \<open>ex.response.json()\<close> raises
  inside the handler, and the call ends with the decoder's error instead of
  \<open>CredentialsError\<close>.
\<close>

theorem C3_refresh_body_not_json:
  "send env_bad_gateway [] (bearer_get ''spo2/date/2024-01-01/2024-01-02.json'' ''expired'')
     = Response \<lparr>status_code = 401, json_body = Some (error_body ''expired_token'')\<rparr>
   \<and> send env_bad_gateway [bearer_get ''spo2/date/2024-01-01/2024-01-02.json'' ''expired'']
        (refresh_post env_bad_gateway (JStr ''A'') (JStr ''B'') (JStr ''R1''))
     = Response \<lparr>status_code = 502, json_body = None\<rparr>
   \<and> api_request env_bad_gateway (Some creds_expired)
        ''spo2/date/2024-01-01/2024-01-02.json''
     = (Inl JSONDecodeError, Some creds_expired,
        [bearer_get ''spo2/date/2024-01-01/2024-01-02.json'' ''expired'',
         refresh_post env_bad_gateway (JStr ''A'') (JStr ''B'') (JStr ''R1'')])
   \<and> \<not> raises_CredentialsError
          (fst (api_request env_bad_gateway (Some creds_expired)
                  ''spo2/date/2024-01-01/2024-01-02.json''))"
proof -
  let ?g1 = "bearer_get ''spo2/date/2024-01-01/2024-01-02.json'' ''expired''"
  let ?po = "refresh_post env_bad_gateway (JStr ''A'') (JStr ''B'') (JStr ''R1'')"
  have h6: "send env_bad_gateway [] ?g1 =
      Response \<lparr>status_code = 401, json_body = Some (error_body ''expired_token'')\<rparr>"
    by (simp add: env_bad_gateway_def scripted_def)
  have h8: "send env_bad_gateway [?g1] ?po = Response \<lparr>status_code = 502, json_body = None\<rparr>"
    by (simp add: env_bad_gateway_def scripted_def)
  have h9: "\<not> is_success \<lparr>status_code = 502, json_body = None\<rparr>"
    by (simp add: is_success_def)
  show ?thesis
    using h6 h8
    by (simp add: refresh_rejected [OF creds_expired_facts h6 status_facts(1) h8 h9]
        raises_CredentialsError_def)
qed

section \<open>Other failures of the first GET\<close>

text \<open>
  C5. For a non-empty dict whose access token is a string (or absent): if the first
  GET is answered with a status outside 2xx other than 401, the call raises that very
  HTTPStatusError, with the response it was raised for; the GET is the only request
  (no refresh, no retry) and the credentials are untouched.
\<close>

theorem C5_other_status_propagates:
  assumes "c \<noteq> []"
    and "dict_get c ''access_token'' (JStr '''') = JStr tok"
    and "send e [] (bearer_get path tok) = Response r"
    and "\<not> is_success r"
    and "status_code r \<noteq> 401"
  shows "api_request e (Some c) path =
     (Inl (HTTPStatusError r), Some c, [bearer_get path tok])"
  using assms(3-5) by (simp add: api_request_str [OF assms(1) assms(2)] get_outcome_def)

theorem C5_witness:
  "api_request env_server_error (Some creds_expired) ''spo2/date/2024-01-01/2024-01-02.json'' =
     (Inl (HTTPStatusError \<lparr>status_code = 500, json_body = Some (error_body ''system'')\<rparr>),
      Some creds_expired, [bearer_get ''spo2/date/2024-01-01/2024-01-02.json'' ''expired''])"
proof -
  let ?g1 = "bearer_get ''spo2/date/2024-01-01/2024-01-02.json'' ''expired''"
  have h3: "send env_server_error [] ?g1 =
      Response \<lparr>status_code = 500, json_body = Some (error_body ''system'')\<rparr>"
    by (simp add: env_server_error_def scripted_def)
  have h4: "\<not> is_success \<lparr>status_code = 500, json_body = Some (error_body ''system'')\<rparr>"
    by (simp add: is_success_def)
  have h5: "status_code \<lparr>status_code = 500, json_body = Some (error_body ''system'')\<rparr> \<noteq> 401"
    by simp
  show ?thesis
    by (rule C5_other_status_propagates
        [OF creds_expired_facts(1) creds_expired_facts(2) h3 h4 h5])
qed

section \<open>Credentials without a refresh token\<close>

text \<open>
  C10. For a non-empty dict without the key \<open>refresh_token\<close>: if the first GET is
  answered 401, the call raises \<open>KeyError('refresh_token')\<close>, which the handler for
  HTTPStatusError does not catch; the credentials are unchanged and no POST is sent.
\<close>

theorem C10_missing_refresh_token_key_error:
  assumes "c \<noteq> []"
    and "map_of c ''refresh_token'' = None"
    and "dict_get c ''access_token'' (JStr '''') = JStr tok"
    and "send e [] (bearer_get path tok) = Response r1"
    and "status_code r1 = 401"
  shows "api_request e (Some c) path =
     (Inl (KeyError ''refresh_token''), Some c, [bearer_get path tok])"
  using assms(2)
  by (simp add: first_get_401 [OF assms(1) assms(3) assms(4) assms(5)] refresh_missing_key
      credentials_error_from_def)

theorem C10_witness:
  "api_request env_refreshed (Some creds_no_refresh) ''spo2/date/2024-01-01/2024-01-02.json'' =
     (Inl (KeyError ''refresh_token''), Some creds_no_refresh,
      [bearer_get ''spo2/date/2024-01-01/2024-01-02.json'' ''expired''])"
proof -
  let ?g1 = "bearer_get ''spo2/date/2024-01-01/2024-01-02.json'' ''expired''"
  have h1: "creds_no_refresh \<noteq> []"
    by (simp add: creds_no_refresh_def)
  have h2: "map_of creds_no_refresh ''refresh_token'' = None"
    by (simp add: creds_no_refresh_def)
  have h3: "dict_get creds_no_refresh ''access_token'' (JStr '''') = JStr ''expired''"
    by (simp add: creds_no_refresh_def dict_get_def)
  have h4: "send env_refreshed [] ?g1 =
      Response \<lparr>status_code = 401, json_body = Some (error_body ''expired_token'')\<rparr>"
    by (simp add: env_refreshed_def scripted_def)
  show ?thesis
    by (rule C10_missing_refresh_token_key_error [OF h1 h2 h3 h4 status_facts(1)])
qed

section \<open>Empty credentials\<close>

text \<open>
  C4. Called with \<open>None\<close> or with the empty dict, the fetch raises \<open>CredentialsError\<close>
  and sends no request at all, whatever the server would answer; so does \<open>get_spo2\<close>.
\<close>

theorem C4_empty_creds_no_request:
  "api_request e None path = (Inl (CredentialsError None), None, [])
   \<and> api_request e (Some []) path = (Inl (CredentialsError None), Some [], [])
   \<and> get_spo2 e None d en = (Inl (CredentialsError None), None, [])
   \<and> get_spo2 e (Some []) d en = (Inl (CredentialsError None), Some [], [])"
  by (simp add: get_spo2_def api_request_None api_request_empty)

section \<open>The SpO2 query\<close>

text \<open>
  C6. Without \<open>end\<close>, \<open>get_spo2(creds, d)\<close> does what \<open>get_spo2(creds, d, d)\<close> does:
  the two calls have the same outcome and send the same requests. The path is
  \<open>spo2/date/<d>/<d>.json\<close>, with \<open><d>\<close> the text \<open>d.strftime("%Y-%m-%d")\<close>; every GET
  of either call goes to the resource URL with that path, and for a non-empty dict
  whose access token is a string (or absent) both calls start with that GET.
\<close>

theorem C6_single_day_is_day_range:
  "get_spo2 e creds d None = get_spo2 e creds d (Some d)
   \<and> spo2_url_path e d None =
       ''spo2/date/'' @ strftime_Ymd e d @ ''/'' @ strftime_Ymd e d @ ''.json''
   \<and> spo2_url_path e d (Some d) = spo2_url_path e d None
   \<and> (\<forall>req \<in> set (snd (snd (get_spo2 e creds d None))).
         is_GET req \<longrightarrow>
         (\<exists>t. req =
            GET (''https://api.fitbit.com/1/user/-/'' @
                 ''spo2/date/'' @ strftime_Ymd e d @ ''/'' @ strftime_Ymd e d @ ''.json'')
              [(''Authorization'', ''Bearer '' @ t)]))
   \<and> (\<forall>c tok. creds = Some c \<and> c \<noteq> []
         \<and> (map_of c ''access_token'' = None \<and> tok = ''''
            \<or> map_of c ''access_token'' = Some (JStr tok)) \<longrightarrow>
       (\<exists>rest.
          snd (snd (get_spo2 e creds d None)) =
            GET (''https://api.fitbit.com/1/user/-/'' @
                 ''spo2/date/'' @ strftime_Ymd e d @ ''/'' @ strftime_Ymd e d @ ''.json'')
              [(''Authorization'', ''Bearer '' @ tok)] # rest
        \<and> snd (snd (get_spo2 e creds d (Some d))) =
            GET (''https://api.fitbit.com/1/user/-/'' @
                 ''spo2/date/'' @ strftime_Ymd e d @ ''/'' @ strftime_Ymd e d @ ''.json'')
              [(''Authorization'', ''Bearer '' @ tok)] # rest))"
proof -
  have path: "spo2_url_path e d None =
      ''spo2/date/'' @ strftime_Ymd e d @ ''/'' @ strftime_Ymd e d @ ''.json''"
    by (simp add: spo2_url_path_def)
  have same: "spo2_url_path e d (Some d) = spo2_url_path e d None"
    by (simp add: spo2_url_path_def)
  have calls: "get_spo2 e creds d None = get_spo2 e creds d (Some d)"
    by (simp add: get_spo2_def same)
  have url: "\<And>t. GET (''https://api.fitbit.com/1/user/-/'' @
           ''spo2/date/'' @ strftime_Ymd e d @ ''/'' @ strftime_Ymd e d @ ''.json'')
        [(''Authorization'', ''Bearer '' @ t)] = bearer_get (spo2_url_path e d None) t"
    unfolding bearer_get_def path by (rule refl)
  note tr = get_spo2_trace [of e creds d None]
  show ?thesis
    unfolding calls [symmetric] url using tr path same by simp
qed

theorem C6_witness:
  "\<exists>rest.
     snd (snd (get_spo2 env_ok (Some creds_no_token) day1 None)) =
       GET ''https://api.fitbit.com/1/user/-/spo2/date/2024-01-01/2024-01-01.json''
         [(''Authorization'', ''Bearer '')] # rest
   \<and> snd (snd (get_spo2 env_ok (Some creds_no_token) day1 (Some day1))) =
       GET ''https://api.fitbit.com/1/user/-/spo2/date/2024-01-01/2024-01-01.json''
         [(''Authorization'', ''Bearer '')] # rest"
proof -
  have h: "Some creds_no_token = Some creds_no_token \<and> creds_no_token \<noteq> []
      \<and> (map_of creds_no_token ''access_token'' = None \<and> [] = ''''
         \<or> map_of creds_no_token ''access_token'' = Some (JStr []))"
    by (simp add: creds_no_token_def)
  have d1: "strftime_Ymd env_ok day1 = ''2024-01-01''"
    by (simp add: env_ok_def day_texts)
  from C6_single_day_is_day_range [of env_ok "Some creds_no_token" day1]
  have "\<forall>c tok. Some creds_no_token = Some c \<and> c \<noteq> []
         \<and> (map_of c ''access_token'' = None \<and> tok = ''''
            \<or> map_of c ''access_token'' = Some (JStr tok)) \<longrightarrow>
       (\<exists>rest.
          snd (snd (get_spo2 env_ok (Some creds_no_token) day1 None)) =
            GET (''https://api.fitbit.com/1/user/-/'' @
                 ''spo2/date/'' @ strftime_Ymd env_ok day1 @ ''/'' @ strftime_Ymd env_ok day1
                 @ ''.json'')
              [(''Authorization'', ''Bearer '' @ tok)] # rest
        \<and> snd (snd (get_spo2 env_ok (Some creds_no_token) day1 (Some day1))) =
            GET (''https://api.fitbit.com/1/user/-/'' @
                 ''spo2/date/'' @ strftime_Ymd env_ok day1 @ ''/'' @ strftime_Ymd env_ok day1
                 @ ''.json'')
              [(''Authorization'', ''Bearer '' @ tok)] # rest)"
    by blast
  from this [rule_format, OF h] show ?thesis
    unfolding d1 by simp
qed

text \<open>
  C9. Every GET that \<open>get_spo2(creds, d, e)\<close> sends, the retry included, goes to
  \<open>https://api.fitbit.com/1/user/-/spo2/date/<d>/<e>.json\<close> with the single header
  \<open>Authorization: Bearer <token>\<close>, where \<open><d>\<close> and \<open><e>\<close> are the texts
  \<open>strftime("%Y-%m-%d")\<close> gives for the two dates. For a non-empty dict whose access
  token is the string \<open>tok\<close>, or is absent (then \<open>tok\<close> is the empty string), the first
  request of the call is that GET with the token \<open>tok\<close>. No request is sent when the
  credentials are \<open>None\<close> or empty, or when the access token is not a string.
\<close>

theorem C9_request_url_and_header:
  "(\<forall>req \<in> set (snd (snd (get_spo2 e creds d (Some en)))).
       is_GET req \<longrightarrow>
       (\<exists>t. req =
          GET (''https://api.fitbit.com/1/user/-/'' @
               ''spo2/date/'' @ strftime_Ymd e d @ ''/'' @ strftime_Ymd e en @ ''.json'')
            [(''Authorization'', ''Bearer '' @ t)]))
   \<and> (\<forall>c tok. creds = Some c \<and> c \<noteq> []
         \<and> (map_of c ''access_token'' = None \<and> tok = ''''
            \<or> map_of c ''access_token'' = Some (JStr tok)) \<longrightarrow>
       (\<exists>rest. snd (snd (get_spo2 e creds d (Some en))) =
          GET (''https://api.fitbit.com/1/user/-/'' @
               ''spo2/date/'' @ strftime_Ymd e d @ ''/'' @ strftime_Ymd e en @ ''.json'')
            [(''Authorization'', ''Bearer '' @ tok)] # rest))
   \<and> (creds = None \<or> creds = Some []
         \<or> (\<exists>c v. creds = Some c \<and> map_of c ''access_token'' = Some v
                \<and> (\<forall>tok. v \<noteq> JStr tok)) \<longrightarrow>
       snd (snd (get_spo2 e creds d (Some en))) = [])"
proof -
  have path: "spo2_url_path e d (Some en) =
      ''spo2/date/'' @ strftime_Ymd e d @ ''/'' @ strftime_Ymd e en @ ''.json''"
    by (simp add: spo2_url_path_def)
  have url: "\<And>t. GET (''https://api.fitbit.com/1/user/-/'' @
           ''spo2/date/'' @ strftime_Ymd e d @ ''/'' @ strftime_Ymd e en @ ''.json'')
        [(''Authorization'', ''Bearer '' @ t)] = bearer_get (spo2_url_path e d (Some en)) t"
    unfolding bearer_get_def path by (rule refl)
  show ?thesis
    unfolding url by (rule get_spo2_trace)
qed

theorem C9_witness:
  "\<exists>rest. snd (snd (get_spo2 env_ok (Some creds_no_token) day1 (Some day2))) =
      GET ''https://api.fitbit.com/1/user/-/spo2/date/2024-01-01/2024-01-02.json''
        [(''Authorization'', ''Bearer '')] # rest"
proof -
  have h: "Some creds_no_token = Some creds_no_token \<and> creds_no_token \<noteq> []
      \<and> (map_of creds_no_token ''access_token'' = None \<and> [] = ''''
         \<or> map_of creds_no_token ''access_token'' = Some (JStr []))"
    by (simp add: creds_no_token_def)
  have d1: "strftime_Ymd env_ok day1 = ''2024-01-01''"
    by (simp add: env_ok_def day_texts)
  have d2: "strftime_Ymd env_ok day2 = ''2024-01-02''"
    by (simp add: env_ok_def day_texts)
  from C9_request_url_and_header [of env_ok "Some creds_no_token" day1 day2]
  have "\<forall>c tok. Some creds_no_token = Some c \<and> c \<noteq> []
         \<and> (map_of c ''access_token'' = None \<and> tok = ''''
            \<or> map_of c ''access_token'' = Some (JStr tok)) \<longrightarrow>
       (\<exists>rest. snd (snd (get_spo2 env_ok (Some creds_no_token) day1 (Some day2))) =
          GET (''https://api.fitbit.com/1/user/-/'' @
               ''spo2/date/'' @ strftime_Ymd env_ok day1 @ ''/'' @ strftime_Ymd env_ok day2
               @ ''.json'')
            [(''Authorization'', ''Bearer '' @ tok)] # rest)"
    by blast
  from this [rule_format, OF h] show ?thesis
    unfolding d1 d2 by simp
qed

section \<open>What a CredentialsError carries\<close>

text \<open>
  C7 as stated fails for the guard: with empty credentials the call raises
  \<open>CredentialsError\<close> with no argument, before any request, so there is no server
  payload it could carry.
\<close>

theorem C7_counterexample:
  "api_request env_ok (Some []) ''spo2/date/2024-01-01/2024-01-02.json'' =
     (Inl (CredentialsError None), Some [], [])"
  by (simp add: api_request_def)

text \<open>
  C7, as the code has it. A \<open>CredentialsError\<close> raised by the fetch is one of two
  kinds. Raised by the guard, for \<open>None\<close> or the empty dict, it has no argument and no
  request was sent. Raised for non-empty credentials, it carries the JSON body of the
  response to the last request sent, and that response has an error status.
\<close>

theorem C7_credentials_error_payload:
  assumes "api_request e creds path = (Inl (CredentialsError p), creds', tr)"
  shows "((creds = None \<or> creds = Some []) \<and> p = None \<and> tr = [])
       \<or> (\<exists>c j r. creds = Some c \<and> c \<noteq> [] \<and> p = Some j \<and> tr \<noteq> []
              \<and> send e (butlast tr) (last tr) = Response r
              \<and> \<not> is_success r \<and> json_body r = Some j)"
proof (cases "creds = None \<or> creds = Some []")
  case True
  then show ?thesis
    using assms by (auto simp: api_request_None api_request_empty)
next
  case False
  then obtain c where c: "creds = Some c" "c \<noteq> []"
    by auto
  from api_request_run [OF c(2) assms [unfolded c(1)]]
  consider
    (nostr) "Inl (CredentialsError p) = (Inl TypeError :: error + json)"
  | (first) tok where "Inl (CredentialsError p) = get_outcome (send e [] (bearer_get path tok))"
  | (refresh) tok rres c1 tr1 ex where
      "refresh_access_token e [bearer_get path tok] c = (rres, c1, tr1)"
      "rres = Inl ex" "CredentialsError p = credentials_error_from ex" "tr = tr1"
  | (retry) tok rres c1 tr1 a ex where
      "refresh_access_token e [bearer_get path tok] c = (rres, c1, tr1)"
      "do_resource_get e tr1 a (resource_url path) = (Inl ex, tr)"
      "CredentialsError p = credentials_error_from ex"
    by (auto split: sum.splits)
  then show ?thesis
  proof cases
    case nostr
    then show ?thesis by simp
  next
    case first
    then show ?thesis
      using get_outcome_error [of "send e [] (bearer_get path tok)" "CredentialsError p"]
      by simp
  next
    case refresh
    have run: "refresh_access_token e [bearer_get path tok] c = (Inl ex, c1, tr1)"
      using refresh(1,2) by simp
    from credentials_error_from_cases [OF refresh(3) [symmetric]]
      refresh_no_credentials_error [OF run, of p]
    obtain r j where rj: "ex = HTTPStatusError r" "json_body r = Some j" "p = Some j"
      by blast
    from refresh_http_error [OF run [unfolded rj(1)]]
    obtain req where req: "tr1 = [bearer_get path tok] @ [req]"
        "send e [bearer_get path tok] req = Response r" "\<not> is_success r"
      by blast
    have "tr \<noteq> []" "butlast tr = [bearer_get path tok]" "last tr = req"
      using req(1) refresh(4) by simp_all
    then show ?thesis
      using c rj(2,3) req(2,3) by simp
  next
    case retry
    from credentials_error_from_cases [OF retry(3) [symmetric]]
      resource_get_no_credentials_error [OF retry(2), of p]
    obtain r j where rj: "ex = HTTPStatusError r" "json_body r = Some j" "p = Some j"
      by blast
    from resource_get_http_error [OF retry(2) [unfolded rj(1)]]
    obtain req where req: "tr = tr1 @ [req]" "send e tr1 req = Response r" "\<not> is_success r"
      by blast
    have "tr \<noteq> []" "butlast tr = tr1" "last tr = req"
      using req(1) by simp_all
    then show ?thesis
      using c rj(2,3) req(2,3) by simp
  qed
qed

theorem C7_witness:
  "\<exists>r. send env_refresh_rejected
          [bearer_get ''spo2/date/2024-01-01/2024-01-02.json'' ''expired'']
          (refresh_post env_refresh_rejected (JStr ''A'') (JStr ''B'') (JStr ''R1''))
        = Response r
      \<and> \<not> is_success r \<and> json_body r = Some (error_body ''invalid_grant'')"
proof -
  let ?g1 = "bearer_get ''spo2/date/2024-01-01/2024-01-02.json'' ''expired''"
  let ?po = "refresh_post env_refresh_rejected (JStr ''A'') (JStr ''B'') (JStr ''R1'')"
  have h6: "send env_refresh_rejected [] ?g1 =
      Response \<lparr>status_code = 401, json_body = Some (error_body ''expired_token'')\<rparr>"
    by (simp add: env_refresh_rejected_def scripted_def)
  have h8: "send env_refresh_rejected [?g1] ?po =
      Response \<lparr>status_code = 400, json_body = Some (error_body ''invalid_grant'')\<rparr>"
    by (simp add: env_refresh_rejected_def scripted_def)
  have h9: "\<not> is_success \<lparr>status_code = 400, json_body = Some (error_body ''invalid_grant'')\<rparr>"
    by (simp add: is_success_def)
  have run: "api_request env_refresh_rejected (Some creds_expired)
       ''spo2/date/2024-01-01/2024-01-02.json'' =
     (Inl (CredentialsError (Some (error_body ''invalid_grant''))), Some creds_expired,
      [?g1, ?po])"
    by (simp add: refresh_rejected [OF creds_expired_facts h6 status_facts(1) h8 h9])
  from C7_credentials_error_payload [OF run]
  show ?thesis by simp
qed

section \<open>What the fetch may change\<close>

text \<open>
  C8. Whatever the server answers and however the call ends, \<open>creds['client_id']\<close>
  and \<open>creds['client_secret']\<close> are after the call what they were before it, and so is
  every field other than \<open>access_token\<close> and \<open>refresh_token\<close>; \<open>None\<close> stays \<open>None\<close>.
  Without a refresh POST the credentials are unchanged as a whole, and when the first
  GET is answered 2xx it is the only request and the credentials are unchanged.
\<close>

theorem C8_only_tokens_change:
  assumes "api_request e creds path = (res, creds', tr)"
  shows "creds_field creds' ''client_id'' = creds_field creds ''client_id''
       \<and> creds_field creds' ''client_secret'' = creds_field creds ''client_secret''
       \<and> (\<forall>k. k \<noteq> ''access_token'' \<and> k \<noteq> ''refresh_token'' \<longrightarrow>
              creds_field creds' k = creds_field creds k)
       \<and> (creds' = None \<longleftrightarrow> creds = None)
       \<and> (list_ex is_POST tr \<or> creds' = creds)
       \<and> (\<forall>r. tr \<noteq> [] \<and> send e [] (hd tr) = Response r \<and> is_success r \<longrightarrow>
              creds' = creds \<and> tr = [hd tr])"
proof -
  have main: "(\<forall>k. k \<noteq> ''access_token'' \<and> k \<noteq> ''refresh_token'' \<longrightarrow>
              creds_field creds' k = creds_field creds k)
       \<and> (creds' = None \<longleftrightarrow> creds = None)
       \<and> (list_ex is_POST tr \<or> creds' = creds)
       \<and> (\<forall>r. tr \<noteq> [] \<and> send e [] (hd tr) = Response r \<and> is_success r \<longrightarrow>
              creds' = creds \<and> tr = [hd tr])"
  proof (cases "creds = None \<or> creds = Some []")
    case True
    then show ?thesis
      using assms by (auto simp: api_request_None api_request_empty)
  next
    case False
    then obtain c where c: "creds = Some c" "c \<noteq> []"
      by auto
    from api_request_run [OF c(2) assms [unfolded c(1)]]
    consider
      (nostr) "creds' = Some c" "tr = []"
    | (first) tok where "res = get_outcome (send e [] (bearer_get path tok))"
        "creds' = Some c" "tr = [bearer_get path tok]"
    | (refresh) tok r1 rres c1 tr1 where
        "send e [] (bearer_get path tok) = Response r1" "status_code r1 = 401"
        "refresh_access_token e [bearer_get path tok] c = (rres, c1, tr1)"
        "creds' = Some c1"
        "tr = tr1 \<or> (\<exists>a res2. do_resource_get e tr1 a (resource_url path) = (res2, tr))"
      by blast
    then show ?thesis
    proof cases
      case nostr
      then show ?thesis by (simp add: c(1))
    next
      case first
      then show ?thesis
        by (simp add: c(1) is_POST_def bearer_get_def)
    next
      case refresh
      have nsucc: "\<not> is_success r1"
        using refresh(2) by (simp add: is_success_def)
      have g1: "\<not> is_POST (bearer_get path tok)"
        by (simp add: is_POST_def bearer_get_def)
      from refresh_trace [OF refresh(3)]
      have tr1: "(tr1 = [bearer_get path tok] \<and> c1 = c)
          \<or> (\<exists>req. is_POST req \<and> tr1 = [bearer_get path tok, req])"
        by simp
      have tr: "tr = tr1 \<or> (\<exists>req. tr = tr1 @ [req])"
        using refresh(5) resource_get_trace by blast
      have ext: "tr \<noteq> [] \<and> hd tr = bearer_get path tok"
        using tr1 tr by auto
      have frame: "\<forall>k. k \<noteq> ''access_token'' \<and> k \<noteq> ''refresh_token'' \<longrightarrow> map_of c1 k = map_of c k"
        using refresh_frame [OF refresh(3)] by blast
      have post: "list_ex is_POST tr \<or> c1 = c"
        using tr1 tr by auto
      have first: "\<forall>r. send e [] (hd tr) = Response r \<longrightarrow> \<not> is_success r"
        using ext refresh(1) nsucc by simp
      show ?thesis
        using ext frame post first refresh(4)
        by (auto simp: c(1) creds_field_def)
    qed
  qed
  then show ?thesis
    by simp
qed

theorem C8_witness:
  "creds_field (Some [(''client_id'', JStr ''A''), (''client_secret'', JStr ''B''),
                      (''access_token'', JStr ''new''), (''refresh_token'', JStr ''R2'')])
     ''client_id'' = creds_field (Some creds_expired) ''client_id''
   \<and> creds_field (Some [(''client_id'', JStr ''A''), (''client_secret'', JStr ''B''),
                      (''access_token'', JStr ''new''), (''refresh_token'', JStr ''R2'')])
     ''client_secret'' = creds_field (Some creds_expired) ''client_secret''"
proof -
  let ?p = "''spo2/date/2024-01-01/2024-01-02.json''"
  let ?g1 = "bearer_get ?p ''expired''"
  let ?po = "refresh_post env_refreshed (JStr ''A'') (JStr ''B'') (JStr ''R1'')"
  let ?g2 = "bearer_get ?p ''new''"
  have h6: "send env_refreshed [] ?g1 =
      Response \<lparr>status_code = 401, json_body = Some (error_body ''expired_token'')\<rparr>"
    by (simp add: env_refreshed_def scripted_def)
  have h8: "send env_refreshed [?g1] ?po =
      Response \<lparr>status_code = 200, json_body = Some new_tokens\<rparr>"
    by (simp add: env_refreshed_def scripted_def)
  have h13: "send env_refreshed [?g1, ?po] ?g2 =
      Response \<lparr>status_code = 200, json_body = Some spo2_records\<rparr>"
    by (simp add: env_refreshed_def scripted_def)
  have run: "api_request env_refreshed (Some creds_expired) ?p =
     (Inr spo2_records,
      Some [(''client_id'', JStr ''A''), (''client_secret'', JStr ''B''),
            (''access_token'', JStr ''new''), (''refresh_token'', JStr ''R2'')],
      [?g1, ?po, ?g2])"
    unfolding refreshed_then_retry
        [OF creds_expired_facts h6 status_facts(1) h8 new_tokens_facts(2) new_tokens_facts(1)
            new_tokens_facts(3) new_tokens_facts(4)] h13
    by (simp add: get_outcome_def is_success_def response_json_def creds_expired_def)
  from C8_only_tokens_change [OF run]
  show ?thesis by simp
qed

end
